theory Spec2Isabelle
  imports Complex_Main
begin

section \<open>Data model of train.py\<close>

text \<open>
  Python floats are modelled as reals, with one exception: numpy returns NaN for the mean or
  the median of an empty array, and every comparison with NaN is false. A numpy result is
  therefore a \<open>real option\<close>, where \<open>None\<close> stands for NaN.

  The environment (unityagents) and the agent (agent.py) are collaborators whose code is not
  part of train.py. They are parameters of the model: a record of functions over an
  environment state \<open>'e\<close> and an agent state \<open>'a\<close>. Each call may raise, so each function
  returns \<open>error + result\<close>.
\<close>

datatype error = IndexError | Raised string

type_synonym obs = "real list"

type_synonym npfloat = "real option"

record ('e, 'a) collab =
  brain_names :: "'e \<Rightarrow> string list"
  env_reset :: "'e \<Rightarrow> string \<Rightarrow> error + ('e \<times> obs)"
  env_step :: "'e \<Rightarrow> string \<Rightarrow> int \<Rightarrow> error + ('e \<times> obs \<times> real \<times> bool)"
  agent_act :: "'a \<Rightarrow> obs \<Rightarrow> real \<Rightarrow> error + ('a \<times> int)"
  agent_step :: "'a \<Rightarrow> obs \<Rightarrow> int \<Rightarrow> real \<Rightarrow> obs \<Rightarrow> bool \<Rightarrow> error + 'a"

text \<open>
  \<open>env_reset c e b\<close> is \<open>env.reset(train_mode=True)[b].vector_observations[0]\<close>;
  \<open>env_step c e b a\<close> is \<open>env.step(a)[b]\<close> read at \<open>vector_observations[0]\<close>,
  \<open>rewards[0]\<close> and \<open>local_done[0]\<close>; \<open>agent_act\<close> and \<open>agent_step\<close> are
  \<open>agent.act(state, eps)\<close> and \<open>agent.step(state, action, reward, next_state, done)\<close>.
\<close>

record train_params =
  n_episodes :: int
  max_t :: int
  eps_start :: real
  eps_end :: real
  eps_decay :: real
  success_thresh :: real

text \<open>What the training loop shows on the console: the progress-bar postfix and the two
  \<open>tqdm.write\<close> messages, with the values they format.\<close>

datatype console =
    Postfix npfloat real
  | Progress int int npfloat real
  | Solved int npfloat real

record ('e, 'a) train_state =
  env_st :: 'e
  agent_st :: 'a
  scores :: "real list"
  scores_window :: "real list"
  eps :: real
  success :: bool
  console_out :: "console list"

section \<open>numpy and deque helpers\<close>

definition np_mean :: "real list \<Rightarrow> npfloat" where
  "np_mean xs = (if xs = [] then None else Some (sum_list xs / real (length xs)))"

definition np_median :: "real list \<Rightarrow> npfloat" where
  "np_median xs =
     (if xs = [] then None
      else (let s = sort xs; n = length xs
            in if n mod 2 = 1 then Some (s ! (n div 2))
               else Some ((s ! (n div 2 - 1) + s ! (n div 2)) / 2)))"

definition np_ge :: "npfloat \<Rightarrow> real \<Rightarrow> bool" where
  "np_ge m t = (case m of None \<Rightarrow> False | Some v \<Rightarrow> t \<le> v)"

text \<open>\<open>deque(maxlen=m).append(x)\<close>: the item is added on the right, and the leftmost item
  is removed when the length then exceeds \<open>m\<close>.\<close>

definition deque_append :: "nat \<Rightarrow> 'x list \<Rightarrow> 'x \<Rightarrow> 'x list" where
  "deque_append m d x = (let d' = d @ [x] in if m < length d' then tl d' else d')"

section \<open>train\_agent\<close>

text \<open>The inner loop \<open>for _ in range(max_t)\<close>: the number of iterations left is the
  recursion argument; \<open>break\<close> on \<open>done\<close> ends it early.\<close>

fun run_steps ::
  "('e, 'a) collab \<Rightarrow> string \<Rightarrow> real \<Rightarrow> nat \<Rightarrow> 'e \<Rightarrow> 'a \<Rightarrow> obs \<Rightarrow> real
     \<Rightarrow> error + ('e \<times> 'a \<times> real)" where
  "run_steps c b ep 0 e a state score = Inr (e, a, score)"
| "run_steps c b ep (Suc k) e a state score =
     (case agent_act c a state ep of
        Inl x \<Rightarrow> Inl x
      | Inr (a1, action) \<Rightarrow>
          (case env_step c e b action of
             Inl x \<Rightarrow> Inl x
           | Inr (e1, next_state, reward, done) \<Rightarrow>
               (case agent_step c a1 state action reward next_state done of
                  Inl x \<Rightarrow> Inl x
                | Inr a2 \<Rightarrow>
                    if done then Inr (e1, a2, score + reward)
                    else run_steps c b ep k e1 a2 next_state (score + reward))))"

text \<open>Lines 82 to 94: what happens once the episode's score is known.\<close>

definition end_episode ::
  "train_params \<Rightarrow> ('e, 'a) train_state \<Rightarrow> int \<Rightarrow> real \<Rightarrow> ('e, 'a) train_state" where
  "end_episode p st i_episode score =
     (let window = deque_append 100 (scores_window st) score;
          history = scores st @ [score];
          eps' = max (eps_end p) (eps_decay p * eps st);
          running_mean = np_mean window;
          out1 = console_out st @ [Postfix running_mean eps'];
          out2 = (if i_episode mod 100 = 0
                  then out1 @ [Progress i_episode (n_episodes p) running_mean eps']
                  else out1);
          hit = (\<not> success st \<and> np_ge running_mean (success_thresh p))
      in st\<lparr>scores := history, scores_window := window, eps := eps',
            success := (if hit then True else success st),
            console_out := (if hit then out2 @ [Solved i_episode running_mean eps'] else out2)\<rparr>)"

definition run_episode ::
  "train_params \<Rightarrow> ('e, 'a) collab \<Rightarrow> string \<Rightarrow> ('e, 'a) train_state \<Rightarrow> int
     \<Rightarrow> error + ('e, 'a) train_state" where
  "run_episode p c b st i_episode =
     (case env_reset c (env_st st) b of
        Inl x \<Rightarrow> Inl x
      | Inr (e1, state) \<Rightarrow>
          (case run_steps c b (eps st) (nat (max_t p)) e1 (agent_st st) state 0 of
             Inl x \<Rightarrow> Inl x
           | Inr (e2, a2, score) \<Rightarrow>
               Inr (end_episode p (st\<lparr>env_st := e2, agent_st := a2\<rparr>) i_episode score)))"

text \<open>The outer loop over the episode numbers. An exception ends it; the result is the
  state built by the episodes that were completed, and the exception if there was one.\<close>

fun train_loop ::
  "train_params \<Rightarrow> ('e, 'a) collab \<Rightarrow> string \<Rightarrow> ('e, 'a) train_state \<Rightarrow> int list
     \<Rightarrow> ('e, 'a) train_state \<times> error option" where
  "train_loop p c b st [] = (st, None)"
| "train_loop p c b st (i # rest) =
     (case run_episode p c b st i of
        Inl x \<Rightarrow> (st, Some x)
      | Inr st' \<Rightarrow> train_loop p c b st' rest)"

definition init_state :: "train_params \<Rightarrow> 'e \<Rightarrow> 'a \<Rightarrow> ('e, 'a) train_state" where
  "init_state p e a =
     \<lparr>env_st = e, agent_st = a, scores = [], scores_window = [], eps = eps_start p,
      success = False, console_out = []\<rparr>"

text \<open>The whole run: \<open>env.brain_names[0]\<close> raises on an empty list, and
  \<open>trange(1, n_episodes + 1)\<close> counts from 1 to \<open>n_episodes\<close>.\<close>

definition train_run ::
  "train_params \<Rightarrow> ('e, 'a) collab \<Rightarrow> 'a \<Rightarrow> 'e \<Rightarrow> ('e, 'a) train_state \<times> error option" where
  "train_run p c a e =
     (case brain_names c e of
        [] \<Rightarrow> (init_state p e a, Some IndexError)
      | b # _ \<Rightarrow> train_loop p c b (init_state p e a) [1 .. n_episodes p])"

text \<open>What \<open>train_agent\<close> returns to its caller: the score history, or the exception.\<close>

definition train_agent ::
  "train_params \<Rightarrow> ('e, 'a) collab \<Rightarrow> 'a \<Rightarrow> 'e \<Rightarrow> error + real list" where
  "train_agent p c a e =
     (case train_run p c a e of (st, None) \<Rightarrow> Inr (scores st) | (st, Some x) \<Rightarrow> Inl x)"

section \<open>plot\_scores\<close>

text \<open>The figure is the list of matplotlib calls, in the order they are made.\<close>

datatype plot_cmd =
    Plot "nat list" "npfloat list" nat
  | Scatter int real
  | Grid
  | YLabel string
  | XLabel string
  | Legend "string list"
  | Title string
  | Show

text \<open>The variables of the loop. The source's \<open>success\<close> is \<open>plot_success\<close> here;
  \<open>success_x\<close> and \<open>success_y\<close> are \<open>None\<close> as in Python until they are assigned. The
  value assigned to \<open>success_y\<close> passed the test \<open>ra_score > success_thresh\<close>, so it is
  never NaN.\<close>

record plot_state =
  ra_scores :: "npfloat list"
  rm_scores :: "npfloat list"
  success_x :: "int option"
  success_y :: "real option"
  plot_success :: bool

text \<open>\<open>scores[max(0, idx - running_window_size + 1): idx + 1]\<close>: both bounds are
  non-negative, and the slice is empty when the lower bound is not below the upper one.\<close>

definition running_slice :: "real list \<Rightarrow> int \<Rightarrow> int \<Rightarrow> real list" where
  "running_slice scs running_window_size idx =
     (let lo = max 0 (idx - running_window_size + 1); hi = idx + 1
      in take (nat hi - nat lo) (drop (nat lo) scs))"

definition plot_step :: "real list \<Rightarrow> int \<Rightarrow> real \<Rightarrow> plot_state \<Rightarrow> int \<Rightarrow> plot_state" where
  "plot_step scs running_window_size thresh st idx =
     (let ra_score = np_mean (running_slice scs running_window_size idx);
          st1 = st\<lparr>ra_scores := ra_scores st @ [ra_score],
                   rm_scores := rm_scores st @ [np_median (running_slice scs running_window_size idx)]\<rparr>
      in case ra_score of
           None \<Rightarrow> st1
         | Some v \<Rightarrow>
             if \<not> plot_success st \<and> thresh < v
             then st1\<lparr>success_x := Some (idx + 1), success_y := Some v, plot_success := True\<rparr>
             else st1)"

fun plot_loop :: "real list \<Rightarrow> int \<Rightarrow> real \<Rightarrow> plot_state \<Rightarrow> int list \<Rightarrow> plot_state" where
  "plot_loop scs w thresh st [] = st"
| "plot_loop scs w thresh st (idx # rest) = plot_loop scs w thresh (plot_step scs w thresh st idx) rest"

definition plot_init :: plot_state where
  "plot_init = \<lparr>ra_scores = [], rm_scores = [], success_x = None, success_y = None,
                 plot_success = False\<rparr>"

definition plot_final :: "real list \<Rightarrow> int \<Rightarrow> real \<Rightarrow> plot_state" where
  "plot_final scs w thresh = plot_loop scs w thresh plot_init (map int [0 ..< length scs])"

text \<open>Python truthiness of \<open>success_x\<close> and \<open>success_y\<close>: \<open>None\<close> and zero are false.\<close>

definition truthy_int :: "int option \<Rightarrow> bool" where
  "truthy_int v = (case v of None \<Rightarrow> False | Some n \<Rightarrow> n \<noteq> 0)"

definition truthy_float :: "real option \<Rightarrow> bool" where
  "truthy_float v = (case v of None \<Rightarrow> False | Some y \<Rightarrow> y \<noteq> 0)"

definition marker :: "plot_state \<Rightarrow> (int \<times> real) option" where
  "marker st =
     (if truthy_int (success_x st) \<and> truthy_float (success_y st)
      then (case (success_x st, success_y st) of
              (Some x, Some y) \<Rightarrow> Some (x, y)
            | _ \<Rightarrow> None)
      else None)"

definition plot_scores :: "real list \<Rightarrow> int \<Rightarrow> real \<Rightarrow> plot_cmd list" where
  "plot_scores scs running_window_size thresh =
     (let st = plot_final scs running_window_size thresh;
          xs = [0 ..< length scs]
      in [Plot xs (map Some scs) 1, Plot xs (ra_scores st) 2, Plot xs (rm_scores st) 3]
         @ (case marker st of None \<Rightarrow> [] | Some (x, y) \<Rightarrow> [Scatter x y])
         @ [Grid, YLabel ''Score'', XLabel ''Episode #'',
            Legend ([''Raw score'', ''Running average score'', ''Running median score'']
                    @ (case marker st of None \<Rightarrow> [] | Some _ \<Rightarrow> [''Success episode''])),
            Title ''DQN training scores'', Show])"

section \<open>main and the command line\<close>

record args =
  arg_no_graphics :: bool
  arg_env_path :: string
  arg_output :: string
  arg_success_threshold :: real
  arg_lin_feats :: int
  arg_nb_hidden :: int
  arg_bn :: bool
  arg_dropout_prob :: real
  arg_device :: "string option"
  arg_deterministic :: bool
  arg_batch_size :: int
  arg_buffer_size :: real
  arg_lr :: real
  arg_episodes :: int
  arg_gamma :: real
  arg_tau :: real
  arg_update_freq :: int
  arg_eps_start :: real
  arg_eps_end :: real
  arg_eps_decay :: real

text \<open>The defaults of the argument parser (lines 201 to 234).\<close>

definition default_args :: args where
  "default_args =
     \<lparr>arg_no_graphics = False, arg_env_path = ''./Banana_Linux/Banana.x86_64'',
      arg_output = ''./outputs'', arg_success_threshold = 13,
      arg_lin_feats = 64, arg_nb_hidden = 1, arg_bn = False, arg_dropout_prob = 0,
      arg_device = None, arg_deterministic = False, arg_batch_size = 64,
      arg_buffer_size = 100000, arg_lr = 5 / 10000, arg_episodes = 500,
      arg_gamma = 99 / 100, arg_tau = 1 / 1000, arg_update_freq = 4,
      arg_eps_start = 1, arg_eps_end = 2 / 100, arg_eps_decay = 98 / 100\<rparr>"

text \<open>The keyword arguments of \<open>Agent(...)\<close> as \<open>main\<close> passes them.\<close>

record agent_config =
  cfg_state_size :: nat
  cfg_action_size :: int
  cfg_train :: bool
  cfg_lin_feats :: "int list"
  cfg_bn :: bool
  cfg_dropout_prob :: real
  cfg_buffer_size :: int
  cfg_batch_size :: int
  cfg_lr :: real
  cfg_gamma :: real
  cfg_tau :: real
  cfg_update_freq :: int
  cfg_device :: "string option"

text \<open>Everything \<open>main\<close> calls outside train.py: the environment's constructor and
  \<open>close\<close>, the brain's action count, the number of agents, the agent's constructor,
  saving the model (with the creation of the output folder) and saving the figure.
  \<open>brain_action_size w e b\<close> is the lookup \<open>env.brains[b]\<close> together with the read of
  \<open>vector_action_space_size\<close>; it stands where the lookup is, before the first reset.\<close>

record ('e, 'a) world =
  collabs :: "('e, 'a) collab"
  make_env :: "string \<Rightarrow> bool \<Rightarrow> error + 'e"
  brain_action_size :: "'e \<Rightarrow> string \<Rightarrow> error + int"
  num_agents :: "'e \<Rightarrow> int"
  make_agent :: "agent_config \<Rightarrow> error + 'a"
  save_model :: "'a \<Rightarrow> string \<Rightarrow> error + unit"
  env_close :: "'e \<Rightarrow> error + unit"
  savefig :: "plot_cmd list \<Rightarrow> string \<Rightarrow> error + unit"

datatype event =
    SetSeed int
  | EnvOpened
  | PrintAgents int
  | PrintActions int
  | PrintState obs
  | PrintStateSize nat
  | Console console
  | ModelSaved
  | CloseEnv
  | Plotted "plot_cmd list"
  | FigSaved

text \<open>How a run of \<open>main\<close> ends: normally, or with an exception raised in one of its
  parts.\<close>

datatype stage = Setup | Training | Saving | Closing | Plotting

datatype outcome = Completed | Failed stage error

text \<open>\<open>int(x)\<close> on a float truncates towards zero.\<close>

definition py_int :: "real \<Rightarrow> int" where
  "py_int x = (if 0 \<le> x then \<lfloor>x\<rfloor> else \<lceil>x\<rceil>)"

definition agent_cfg :: "args \<Rightarrow> nat \<Rightarrow> int \<Rightarrow> agent_config" where
  "agent_cfg ar state_size action_size =
     \<lparr>cfg_state_size = state_size, cfg_action_size = action_size, cfg_train = True,
      cfg_lin_feats = replicate (nat (1 + arg_nb_hidden ar)) (arg_lin_feats ar),
      cfg_bn = arg_bn ar, cfg_dropout_prob = arg_dropout_prob ar,
      cfg_buffer_size = py_int (arg_buffer_size ar), cfg_batch_size = arg_batch_size ar,
      cfg_lr = arg_lr ar, cfg_gamma = arg_gamma ar, cfg_tau = arg_tau ar,
      cfg_update_freq = arg_update_freq ar, cfg_device = arg_device ar\<rparr>"

text \<open>The call of \<open>train_agent\<close> in \<open>main\<close> (lines 176 to 180) passes the episode count
  and the three epsilon options; \<open>max_t\<close> and \<open>success_thresh\<close> keep the defaults of
  the function's signature, 1000 and 13.\<close>

definition main_train_params :: "args \<Rightarrow> train_params" where
  "main_train_params ar =
     \<lparr>n_episodes = arg_episodes ar, max_t = 1000, eps_start = arg_eps_start ar,
      eps_end = arg_eps_end ar, eps_decay = arg_eps_decay ar, success_thresh = 13\<rparr>"

text \<open>Lines 182 to 193: after training.\<close>

definition main_finish ::
  "('e, 'a) world \<Rightarrow> args \<Rightarrow> ('e, 'a) train_state \<Rightarrow> event list \<times> outcome" where
  "main_finish w ar st =
     (case save_model w (agent_st st) (arg_output ar) of
        Inl x \<Rightarrow> ([], Failed Saving x)
      | Inr _ \<Rightarrow>
          (case env_close w (env_st st) of
             Inl x \<Rightarrow> ([ModelSaved, CloseEnv], Failed Closing x)
           | Inr _ \<Rightarrow>
               (let fig = plot_scores (scores st) 100 (arg_success_threshold ar)
                in case savefig w fig (arg_output ar) of
                     Inl x \<Rightarrow> ([ModelSaved, CloseEnv, Plotted fig], Failed Plotting x)
                   | Inr _ \<Rightarrow> ([ModelSaved, CloseEnv, Plotted fig, FigSaved], Completed))))"

text \<open>Lines 176 to 180, then the rest.\<close>

definition main_train ::
  "('e, 'a) world \<Rightarrow> args \<Rightarrow> 'a \<Rightarrow> 'e \<Rightarrow> event list \<times> outcome" where
  "main_train w ar a e =
     (case train_run (main_train_params ar) (collabs w) a e of
        (st, Some x) \<Rightarrow> (map Console (console_out st), Failed Training x)
      | (st, None) \<Rightarrow>
          (case main_finish w ar st of
             (evs, res) \<Rightarrow> (map Console (console_out st) @ evs, res)))"

text \<open>\<open>main(args)\<close>: the events of the run in order, and how it ended. \<open>CloseEnv\<close> records
  that \<open>env.close()\<close> was called.\<close>

definition main :: "('e, 'a) world \<Rightarrow> args \<Rightarrow> event list \<times> outcome" where
  "main w ar =
     (let seeded = (if arg_deterministic ar then [SetSeed 42] else [])
      in case make_env w (arg_env_path ar) (arg_no_graphics ar) of
           Inl x \<Rightarrow> (seeded, Failed Setup x)
         | Inr e0 \<Rightarrow>
             (case brain_names (collabs w) e0 of
                [] \<Rightarrow> (seeded @ [EnvOpened], Failed Setup IndexError)
              | b # _ \<Rightarrow>
                  (case brain_action_size w e0 b of
                     Inl x \<Rightarrow> (seeded @ [EnvOpened], Failed Setup x)
                   | Inr action_size \<Rightarrow>
                       (case env_reset (collabs w) e0 b of
                          Inl x \<Rightarrow> (seeded @ [EnvOpened], Failed Setup x)
                        | Inr (e1, state) \<Rightarrow>
                            (let printed = [PrintAgents (num_agents w e1), PrintActions action_size,
                                            PrintState state, PrintStateSize (length state)]
                             in case make_agent w (agent_cfg ar (length state) action_size) of
                                  Inl x \<Rightarrow> (seeded @ [EnvOpened] @ printed, Failed Setup x)
                                | Inr a \<Rightarrow>
                                    (case main_train w ar a e1 of
                                       (evs, res) \<Rightarrow>
                                         (seeded @ [EnvOpened] @ printed @ evs, res)))))))"

section \<open>The stub environment of the end-to-end scenario\<close>

text \<open>One brain, a state of four zeros, and a step that always returns the reward \<open>r\<close>
  with \<open>done\<close> set. The agent is any pair of functions that do not raise.\<close>

definition stub_collab ::
  "real \<Rightarrow> ('a \<Rightarrow> obs \<Rightarrow> real \<Rightarrow> 'a \<times> int) \<Rightarrow> ('a \<Rightarrow> obs \<Rightarrow> int \<Rightarrow> real \<Rightarrow> obs \<Rightarrow> bool \<Rightarrow> 'a)
     \<Rightarrow> (unit, 'a) collab" where
  "stub_collab r act stp =
     \<lparr>brain_names = (\<lambda>e. [''BananaBrain'']),
      env_reset = (\<lambda>e b. Inr (e, [0, 0, 0, 0])),
      env_step = (\<lambda>e b action. Inr (e, [0, 0, 0, 0], r, True)),
      agent_act = (\<lambda>a state ep. Inr (act a state ep)),
      agent_step = (\<lambda>a state action reward next_state done. Inr (stp a state action reward next_state done))\<rparr>"

text \<open>An agent that does nothing: it always chooses action 0 and learns nothing.\<close>

definition idle_act :: "unit \<Rightarrow> obs \<Rightarrow> real \<Rightarrow> unit \<times> int" where
  "idle_act a state ep = (a, 0)"

definition idle_step :: "unit \<Rightarrow> obs \<Rightarrow> int \<Rightarrow> real \<Rightarrow> obs \<Rightarrow> bool \<Rightarrow> unit" where
  "idle_step a state action reward next_state done = a"

text \<open>A world around the stub, in which nothing raises: three actions, one agent.\<close>

definition stub_world :: "real \<Rightarrow> (unit, unit) world" where
  "stub_world r =
     \<lparr>collabs = stub_collab r idle_act idle_step,
      make_env = (\<lambda>path no_graphics. Inr ()),
      brain_action_size = (\<lambda>e b. Inr 3),
      num_agents = (\<lambda>e. 1),
      make_agent = (\<lambda>cfg. Inr ()),
      save_model = (\<lambda>a dir. Inr ()),
      env_close = (\<lambda>e. Inr ()),
      savefig = (\<lambda>fig dir. Inr ())\<rparr>"

text \<open>The same world with a simulator that dies at the first step.\<close>

definition crash_world :: "(unit, unit) world" where
  "crash_world =
     (stub_world 1)\<lparr>collabs :=
        (stub_collab 1 idle_act idle_step)\<lparr>env_step := (\<lambda>e b action. Inl (Raised ''simulator closed''))\<rparr>\<rparr>"

section \<open>Observations on a run\<close>

fun is_solved :: "console \<Rightarrow> bool" where
  "is_solved (Solved i m ep) = True"
| "is_solved (Postfix m ep) = False"
| "is_solved (Progress i n m ep) = False"

fun is_scatter :: "plot_cmd \<Rightarrow> bool" where
  "is_scatter (Scatter x y) = True"
| "is_scatter (Plot xs ys z) = False"
| "is_scatter Grid = False"
| "is_scatter (YLabel s) = False"
| "is_scatter (XLabel s) = False"
| "is_scatter (Legend ls) = False"
| "is_scatter (Title s) = False"
| "is_scatter Show = False"

text \<open>The success messages among the events of \<open>main\<close>.\<close>

fun is_solved_event :: "event \<Rightarrow> bool" where
  "is_solved_event (Console c) = is_solved c"
| "is_solved_event (SetSeed n) = False"
| "is_solved_event EnvOpened = False"
| "is_solved_event (PrintAgents n) = False"
| "is_solved_event (PrintActions n) = False"
| "is_solved_event (PrintState s) = False"
| "is_solved_event (PrintStateSize n) = False"
| "is_solved_event ModelSaved = False"
| "is_solved_event CloseEnv = False"
| "is_solved_event (Plotted fig) = False"
| "is_solved_event FigSaved = False"

text \<open>The epsilon update of one episode, and the parameters of the function's signature.\<close>

definition decay_step :: "train_params \<Rightarrow> real \<Rightarrow> real" where
  "decay_step p x = max (eps_end p) (eps_decay p * x)"

definition default_train_params :: train_params where
  "default_train_params =
     \<lparr>n_episodes = 2000, max_t = 1000, eps_start = 1, eps_end = 1 / 100,
      eps_decay = 995 / 1000, success_thresh = 13\<rparr>"

text \<open>Named inputs for the examples: the signature's parameters with a given number of
  episodes and threshold, the stub environment with the idle agent, and a command line that
  lowers the threshold and shortens the run.\<close>

definition scenario_params :: "int \<Rightarrow> real \<Rightarrow> train_params" where
  "scenario_params n t = default_train_params\<lparr>n_episodes := n, success_thresh := t\<rparr>"

definition idle_stub :: "real \<Rightarrow> (unit, unit) collab" where
  "idle_stub r = stub_collab r idle_act idle_step"

definition low_threshold_args :: args where
  "low_threshold_args = default_args\<lparr>arg_success_threshold := 1 / 2, arg_episodes := 5\<rparr>"

text \<open>The part of the training state that the scores depend on: everything but the solved
  flag and the console.\<close>

definition core_state ::
  "('e, 'a) train_state \<Rightarrow> 'e \<times> 'a \<times> real list \<times> real list \<times> real" where
  "core_state st = (env_st st, agent_st st, scores st, scores_window st, eps st)"

section \<open>Basic facts about the training loop\<close>

lemma deque_append_bounded: "length d \<le> m \<Longrightarrow> length (deque_append m d x) \<le> m"
  by (simp add: deque_append_def Let_def)

lemma deque_append_full: "length d = m \<Longrightarrow> 0 < m \<Longrightarrow> deque_append m d x = tl d @ [x]"
  by (cases d) (simp_all add: deque_append_def Let_def)

lemma deque_append_room: "length d < m \<Longrightarrow> deque_append m d x = d @ [x]"
  by (simp add: deque_append_def Let_def)

lemma deque_append_nonempty: "0 < m \<Longrightarrow> deque_append m d x \<noteq> []"
  by (cases d) (auto simp add: deque_append_def Let_def)

lemma end_episode_scores [simp]: "scores (end_episode p st i s) = scores st @ [s]"
  by (simp add: end_episode_def Let_def)

lemma end_episode_window [simp]:
  "scores_window (end_episode p st i s) = deque_append 100 (scores_window st) s"
  by (simp add: end_episode_def Let_def)

lemma end_episode_eps [simp]: "eps (end_episode p st i s) = decay_step p (eps st)"
  by (simp add: end_episode_def Let_def decay_step_def)

lemma end_episode_success [simp]:
  "success (end_episode p st i s) =
     (success st \<or> np_ge (np_mean (deque_append 100 (scores_window st) s)) (success_thresh p))"
  by (auto simp add: end_episode_def Let_def)

lemma end_episode_env [simp]: "env_st (end_episode p st i s) = env_st st"
  and end_episode_agent [simp]: "agent_st (end_episode p st i s) = agent_st st"
  by (simp_all add: end_episode_def Let_def)

text \<open>An episode that completes is the end-of-episode update applied to the state the
  collaborators were left in.\<close>

lemma run_episode_Inr:
  "run_episode p c b st i = Inr st' \<Longrightarrow>
     \<exists>e2 a2 s. st' = end_episode p (st\<lparr>env_st := e2, agent_st := a2\<rparr>) i s"
  by (auto simp add: run_episode_def split: sum.splits prod.splits)

text \<open>Whatever the end-of-episode update preserves holds of every state the loop reaches,
  whether the loop ran to its end or was stopped by an exception.\<close>

lemma train_loop_invariant:
  assumes "P st"
    and "\<And>s e2 a2 i sc. P s \<Longrightarrow> P (end_episode p (s\<lparr>env_st := e2, agent_st := a2\<rparr>) i sc)"
  shows "P (fst (train_loop p c b st js))"
  using assms(1)
proof (induction js arbitrary: st)
  case Nil
  then show ?case by simp
next
  case (Cons j js)
  show ?case
  proof (cases "run_episode p c b st j")
    case (Inl x)
    with Cons.prems show ?thesis by simp
  next
    case (Inr st')
    then obtain e2 a2 s where "st' = end_episode p (st\<lparr>env_st := e2, agent_st := a2\<rparr>) j s"
      using run_episode_Inr by blast
    with Cons.prems assms(2) have "P st'" by simp
    with Cons.IH Inr show ?thesis by simp
  qed
qed

lemma train_run_invariant:
  assumes "P (init_state p e a)"
    and "\<And>s e2 a2 i sc. P s \<Longrightarrow> P (end_episode p (s\<lparr>env_st := e2, agent_st := a2\<rparr>) i sc)"
  shows "P (fst (train_run p c a e))"
  using assms train_loop_invariant [of P "init_state p e a" p c]
  by (simp add: train_run_def split: list.splits)

section \<open>The window of the last 100 scores\<close>

lemma window_is_suffix_step:
  assumes "scores_window st = drop (length (scores st) - 100) (scores st)"
  shows "scores_window (end_episode p (st\<lparr>env_st := e2, agent_st := a2\<rparr>) i s)
         = drop (length (scores (end_episode p (st\<lparr>env_st := e2, agent_st := a2\<rparr>) i s)) - 100)
             (scores (end_episode p (st\<lparr>env_st := e2, agent_st := a2\<rparr>) i s))"
proof (cases "length (scores st) < 100")
  case True
  with assms show ?thesis by (simp add: deque_append_room)
next
  case False
  then have len: "length (scores_window st) = 100" using assms by simp
  have "deque_append 100 (scores_window st) s = tl (scores_window st) @ [s]"
    using deque_append_full [OF len] by simp
  also have "tl (scores_window st) = drop (Suc (length (scores st) - 100)) (scores st)"
    using assms by (simp add: drop_Suc tl_drop)
  also have "Suc (length (scores st) - 100) = length (scores st) - 99"
    using False by arith
  finally show ?thesis by simp
qed

lemma window_is_suffix:
  "scores_window (fst (train_run p c a e))
     = drop (length (scores (fst (train_run p c a e))) - 100) (scores (fst (train_run p c a e)))"
  by (rule train_run_invariant
        [where P = "\<lambda>s. scores_window s = drop (length (scores s) - 100) (scores s)"])
     (simp add: init_state_def, rule window_is_suffix_step)

text \<open>
  Claim C5. The window of episode scores never holds more than 100 entries: in the state a
  run of any length has reached (at its end, or when an exception stopped it) the window
  has at most 100 entries and is exactly the last 100 scores of the history (all of them
  while there are fewer). The end-of-episode update keeps the bound, and on a full window
  it removes the oldest entry and adds the new score at the end.
\<close>

theorem window_bounded:
  "length (scores_window (fst (train_run p c a e))) \<le> 100
   \<and> scores_window (fst (train_run p c a e))
       = drop (length (scores (fst (train_run p c a e))) - 100) (scores (fst (train_run p c a e)))
   \<and> (length (scores_window st) \<le> 100 \<longrightarrow>
        length (scores_window (end_episode p st i s)) \<le> 100)
   \<and> (length (scores_window st) = 100 \<longrightarrow>
        scores_window (end_episode p st i s) = tl (scores_window st) @ [s])"
proof -
  have "length (scores_window (fst (train_run p c a e))) \<le> 100"
    by (subst window_is_suffix) simp
  then show ?thesis
    using window_is_suffix [of p c a e]
    by (simp add: deque_append_bounded deque_append_full)
qed

theorem window_bounded_witness:
  "length (scores_window (fst (train_run default_train_params
       (stub_collab 1 idle_act idle_step) () ()))) \<le> 100
   \<and> length (scores_window (end_episode default_train_params
        ((init_state default_train_params () ())\<lparr>scores_window := replicate 100 0\<rparr>) 101 5)) \<le> 100
   \<and> scores_window (end_episode default_train_params
        ((init_state default_train_params () ())\<lparr>scores_window := replicate 100 0\<rparr>) 101 5)
       = tl (replicate 100 0) @ [5]"
  using window_bounded [of default_train_params "stub_collab 1 idle_act idle_step" "()" "()"
      "(init_state default_train_params () ())\<lparr>scores_window := replicate 100 0\<rparr>" 101 5]
  by simp

section \<open>The stub environment runs one step per episode\<close>

lemma run_steps_stub:
  "0 < k \<Longrightarrow> run_steps (stub_collab r act stp) b ep k e a s sc
     = Inr (e, stp (fst (act a s ep)) s (snd (act a s ep)) r [0, 0, 0, 0] True, sc + r)"
  by (cases k) (simp_all add: stub_collab_def split: prod.splits)

lemma env_reset_stub [simp]: "env_reset (stub_collab r act stp) e b = Inr (e, [0, 0, 0, 0])"
  by (simp add: stub_collab_def)

lemma run_episode_stub:
  "0 < max_t p \<Longrightarrow> run_episode p (stub_collab r act stp) b st i
     = Inr (end_episode p
         (st\<lparr>env_st := env_st st,
             agent_st := stp (fst (act (agent_st st) [0, 0, 0, 0] (eps st))) [0, 0, 0, 0]
                           (snd (act (agent_st st) [0, 0, 0, 0] (eps st))) r [0, 0, 0, 0] True\<rparr>) i r)"
  by (simp add: run_episode_def run_steps_stub)

lemma brain_names_stub [simp]: "brain_names (stub_collab r act stp) e = [''BananaBrain'']"
  by (simp add: stub_collab_def)

section \<open>The epsilon schedule\<close>

lemma decay_step_lower: "eps_end p \<le> decay_step p x"
  by (simp add: decay_step_def)

lemma decay_step_nonneg: "0 \<le> eps_decay p \<Longrightarrow> 0 \<le> x \<Longrightarrow> 0 \<le> decay_step p x"
  by (simp add: decay_step_def max.coboundedI2)

lemma decay_step_le:
  assumes "eps_decay p \<le> 1" "0 \<le> x" "eps_end p \<le> x"
  shows "decay_step p x \<le> x"
proof -
  have "eps_decay p * x \<le> 1 * x" using assms(1,2) by (rule mult_right_mono)
  then show ?thesis using assms(3) by (simp add: decay_step_def)
qed

lemma eps_closed_form:
  "eps (fst (train_loop p c b (init_state p e a) js))
     = (decay_step p ^^ length (scores (fst (train_loop p c b (init_state p e a) js)))) (eps_start p)"
  by (rule train_loop_invariant
        [where P = "\<lambda>s. eps s = (decay_step p ^^ length (scores s)) (eps_start p)"])
     (simp_all add: init_state_def)

lemma eps_bounds:
  assumes "0 \<le> eps_decay p" "eps_decay p \<le> 1" "0 \<le> eps_start p" "eps_end p \<le> eps_start p"
  shows "eps_end p \<le> eps (fst (train_loop p c b (init_state p e a) js))
         \<and> eps (fst (train_loop p c b (init_state p e a) js)) \<le> eps_start p
         \<and> 0 \<le> eps (fst (train_loop p c b (init_state p e a) js))"
proof (rule train_loop_invariant
        [where P = "\<lambda>s. eps_end p \<le> eps s \<and> eps s \<le> eps_start p \<and> 0 \<le> eps s"])
  show "eps_end p \<le> eps (init_state p e a) \<and> eps (init_state p e a) \<le> eps_start p
        \<and> 0 \<le> eps (init_state p e a)"
    using assms by (simp add: init_state_def)
next
  fix s :: "('c, 'd) train_state" and e2 a2 i sc
  assume inv: "eps_end p \<le> eps s \<and> eps s \<le> eps_start p \<and> 0 \<le> eps s"
  then have "decay_step p (eps s) \<le> eps s"
    using assms(2) by (simp add: decay_step_le)
  with inv assms(1) show "eps_end p \<le> eps (end_episode p (s\<lparr>env_st := e2, agent_st := a2\<rparr>) i sc)
      \<and> eps (end_episode p (s\<lparr>env_st := e2, agent_st := a2\<rparr>) i sc) \<le> eps_start p
      \<and> 0 \<le> eps (end_episode p (s\<lparr>env_st := e2, agent_st := a2\<rparr>) i sc)"
    by (simp add: decay_step_lower decay_step_nonneg)
qed

lemma run_episode_eps: "run_episode p c b st i = Inr st' \<Longrightarrow> eps st' = decay_step p (eps st)"
  by (auto dest: run_episode_Inr)

text \<open>
  Claim C1, as amended. When \<open>0 \<le> eps_decay \<le> 1\<close>, \<open>0 \<le> eps_start\<close> and
  \<open>eps_end \<le> eps_start\<close>, epsilon stays between \<open>eps_end\<close> and \<open>eps_start\<close> in every
  state the loop reaches, and an episode never increases it. The update is
  \<open>max(eps_end, eps_decay * epsilon)\<close>, applied once per completed episode: after \<open>k\<close>
  completed episodes epsilon is the \<open>k\<close>-fold update of \<open>eps_start\<close>.
\<close>

theorem epsilon_schedule:
  assumes "0 \<le> eps_decay p" and "eps_decay p \<le> 1"
    and "0 \<le> eps_start p" and "eps_end p \<le> eps_start p"
    and "st = fst (train_loop p c b (init_state p e a) js)"
  shows "eps_end p \<le> eps st \<and> eps st \<le> eps_start p
         \<and> eps st = (decay_step p ^^ length (scores st)) (eps_start p)
         \<and> (\<forall>i st'. run_episode p c b st i = Inr st' \<longrightarrow>
               eps st' = max (eps_end p) (eps_decay p * eps st)
               \<and> eps st' \<le> eps st \<and> eps_end p \<le> eps st' \<and> eps st' \<le> eps_start p)"
proof -
  have b: "eps_end p \<le> eps st \<and> eps st \<le> eps_start p \<and> 0 \<le> eps st"
    using eps_bounds [OF assms(1-4)] assms(5) by simp
  have cf: "eps st = (decay_step p ^^ length (scores st)) (eps_start p)"
    using eps_closed_form assms(5) by simp
  have "eps st' = max (eps_end p) (eps_decay p * eps st)
        \<and> eps st' \<le> eps st \<and> eps_end p \<le> eps st' \<and> eps st' \<le> eps_start p"
    if "run_episode p c b st i = Inr st'" for i st'
  proof -
    have e: "eps st' = decay_step p (eps st)" using that by (rule run_episode_eps)
    have "decay_step p (eps st) \<le> eps st" using b assms(2) by (simp add: decay_step_le)
    with e b show ?thesis by (simp add: decay_step_lower) (simp add: decay_step_def)
  qed
  with b cf show ?thesis by blast
qed

theorem epsilon_schedule_witness:
  "1 / 100 \<le> eps (fst (train_loop default_train_params (stub_collab 1 idle_act idle_step)
        ''BananaBrain'' (init_state default_train_params () ()) [1, 2]))
   \<and> eps (fst (train_loop default_train_params (stub_collab 1 idle_act idle_step)
        ''BananaBrain'' (init_state default_train_params () ()) [1, 2])) \<le> 1"
  using epsilon_schedule [of default_train_params
      "fst (train_loop default_train_params (stub_collab 1 idle_act idle_step) ''BananaBrain''
        (init_state default_train_params () ()) [1, 2])"
      "stub_collab 1 idle_act idle_step" "''BananaBrain''" "()" "()" "[1, 2]"]
  by (simp add: default_train_params_def)

theorem epsilon_schedule_counterexample:
  "\<not> eps (fst (train_run (default_train_params\<lparr>n_episodes := 1, eps_decay := 2\<rparr>)
            (stub_collab 1 idle_act idle_step) () ()))
       \<le> eps_start (default_train_params\<lparr>n_episodes := 1, eps_decay := 2\<rparr>)"
  by (simp add: train_run_def default_train_params_def run_episode_stub init_state_def
        decay_step_def)

section \<open>The solved flag\<close>

lemma np_mean_nonempty: "xs \<noteq> [] \<Longrightarrow> np_mean xs = Some (sum_list xs / real (length xs))"
  by (simp add: np_mean_def)

lemma np_ge_Some [simp]: "np_ge (Some v) t = (t \<le> v)"
  by (simp add: np_ge_def)

lemma window_mean:
  "np_mean (deque_append 100 w s)
     = Some (sum_list (deque_append 100 w s) / real (length (deque_append 100 w s)))"
  by (rule np_mean_nonempty) (simp add: deque_append_nonempty)

lemma end_episode_solved:
  "filter is_solved (console_out (end_episode p st i s))
     = filter is_solved (console_out st)
       @ (if \<not> success st \<and> np_ge (np_mean (deque_append 100 (scores_window st) s)) (success_thresh p)
          then [Solved i (np_mean (deque_append 100 (scores_window st) s)) (decay_step p (eps st))]
          else [])"
  by (simp add: end_episode_def Let_def decay_step_def)

lemma end_episode_console_mono: "x \<in> set (console_out st) \<Longrightarrow> x \<in> set (console_out (end_episode p st i s))"
  by (simp add: end_episode_def Let_def)

lemma success_kept: "success st \<Longrightarrow> success (fst (train_loop p c b st js))"
  by (rule train_loop_invariant [where P = success]) simp_all

lemma console_kept:
  "x \<in> set (console_out st) \<Longrightarrow> x \<in> set (console_out (fst (train_loop p c b st js)))"
  by (rule train_loop_invariant [where P = "\<lambda>s. x \<in> set (console_out s)"])
     (simp_all add: end_episode_console_mono)

lemma solved_count:
  "length (filter is_solved (console_out (fst (train_loop p c b (init_state p e a) js))))
     = (if success (fst (train_loop p c b (init_state p e a) js)) then 1 else 0)"
  by (rule train_loop_invariant
        [where P = "\<lambda>s. length (filter is_solved (console_out s)) = (if success s then 1 else 0)"])
     (simp_all add: init_state_def end_episode_solved)

text \<open>
  Claim C2. The solved flag starts false. At the end of an episode in which the flag is
  false and the mean of the score window reaches the threshold, the flag is set and exactly
  one success message is written. At the end of an episode in which the flag is false and
  the mean is below the threshold, nothing changes. Once the flag is set, the end of an
  episode keeps it set and writes no success message, whatever the scores are, and so does
  the rest of the run. A run therefore writes one success message if its flag ends set, and
  none otherwise.
\<close>

theorem success_flag_one_shot:
  "\<not> success (init_state p e a)
   \<and> (\<not> success st \<and> np_ge (np_mean (deque_append 100 (scores_window st) s)) (success_thresh p)
        \<longrightarrow> success (end_episode p st i s)
            \<and> filter is_solved (console_out (end_episode p st i s))
                = filter is_solved (console_out st)
                  @ [Solved i (np_mean (deque_append 100 (scores_window st) s)) (decay_step p (eps st))])
   \<and> (\<not> success st \<and> \<not> np_ge (np_mean (deque_append 100 (scores_window st) s)) (success_thresh p)
        \<longrightarrow> \<not> success (end_episode p st i s)
            \<and> filter is_solved (console_out (end_episode p st i s)) = filter is_solved (console_out st))
   \<and> (success st
        \<longrightarrow> success (end_episode p st i s)
            \<and> filter is_solved (console_out (end_episode p st i s)) = filter is_solved (console_out st))
   \<and> (success st \<longrightarrow> success (fst (train_loop p c b st js)))
   \<and> length (filter is_solved (console_out (fst (train_loop p c b (init_state p e a) js))))
       = (if success (fst (train_loop p c b (init_state p e a) js)) then 1 else 0)"
  using solved_count [of p c b e a js] success_kept [of st p c b js]
  by (simp add: end_episode_solved) (simp add: init_state_def)

theorem success_flag_one_shot_witness:
  "success (end_episode (scenario_params 3 1) (init_state (scenario_params 3 1) () ()) 1 1)
   \<and> \<not> success (end_episode (scenario_params 3 1) (init_state (scenario_params 3 1) () ()) 1 0)
   \<and> success (end_episode (scenario_params 3 1)
         (end_episode (scenario_params 3 1) (init_state (scenario_params 3 1) () ()) 1 1) 2 0)
   \<and> filter is_solved (console_out (end_episode (scenario_params 3 1)
         (end_episode (scenario_params 3 1) (init_state (scenario_params 3 1) () ()) 1 1) 2 0))
       = [Solved 1 (Some 1) (995 / 1000)]
   \<and> success (fst (train_loop (scenario_params 3 1) (idle_stub 0) ''BananaBrain''
         (end_episode (scenario_params 3 1) (init_state (scenario_params 3 1) () ()) 1 1) [2, 3]))"
  using success_flag_one_shot [where p = "scenario_params 3 1" and e = "()" and a = "()"
        and st = "init_state (scenario_params 3 1) () ()" and s = 1 and i = 1
        and c = "idle_stub 0" and b = "''BananaBrain''" and js = "[]"]
    success_flag_one_shot [where p = "scenario_params 3 1" and e = "()" and a = "()"
        and st = "init_state (scenario_params 3 1) () ()" and s = 0 and i = 1
        and c = "idle_stub 0" and b = "''BananaBrain''" and js = "[]"]
    success_flag_one_shot [where p = "scenario_params 3 1" and e = "()" and a = "()"
        and st = "end_episode (scenario_params 3 1) (init_state (scenario_params 3 1) () ()) 1 1"
        and s = 0 and i = 2
        and c = "idle_stub 0" and b = "''BananaBrain''" and js = "[2, 3]"]
  by (simp add: scenario_params_def init_state_def default_train_params_def np_mean_def
        deque_append_def decay_step_def)

section \<open>The score history\<close>








lemma decay_step_thresh [simp]: "decay_step (p\<lparr>success_thresh := t\<rparr>) = decay_step p"
  by (rule ext) (simp add: decay_step_def)

lemma core_end_episode:
  "core_state s2 = core_state s1 \<Longrightarrow>
   core_state (end_episode (p\<lparr>success_thresh := t\<rparr>) (s2\<lparr>env_st := e2, agent_st := a2\<rparr>) i sc)
     = core_state (end_episode p (s1\<lparr>env_st := e2, agent_st := a2\<rparr>) i sc)"
  by (simp add: core_state_def)






section \<open>Success before 100 episodes\<close>

lemma window_is_suffix_loop:
  "scores_window (fst (train_loop p c b (init_state p e a) js))
     = drop (length (scores (fst (train_loop p c b (init_state p e a) js))) - 100)
         (scores (fst (train_loop p c b (init_state p e a) js)))"
  by (rule train_loop_invariant
        [where P = "\<lambda>s. scores_window s = drop (length (scores s) - 100) (scores s)"])
     (simp add: init_state_def, rule window_is_suffix_step)

lemma window_length:
  "length (scores_window (fst (train_loop p c b (init_state p e a) js)))
     = min (length (scores (fst (train_loop p c b (init_state p e a) js)))) 100"
  by (subst window_is_suffix_loop) auto

lemma first_episode:
  assumes "run_episode p c b (init_state p e a) i = Inr sta"
  shows "scores_window sta = [hd (scores sta)]"
    and "success sta = (success_thresh p \<le> hd (scores sta))"
    and "success_thresh p \<le> hd (scores sta)
           \<Longrightarrow> Solved i (Some (hd (scores sta))) (eps sta) \<in> set (console_out sta)"
proof -
  obtain e2 a2 s where sta: "sta = end_episode p ((init_state p e a)\<lparr>env_st := e2, agent_st := a2\<rparr>) i s"
    using run_episode_Inr [OF assms] by blast
  show "scores_window sta = [hd (scores sta)]"
    by (simp add: sta init_state_def deque_append_def)
  show "success sta = (success_thresh p \<le> hd (scores sta))"
    by (simp add: sta init_state_def deque_append_def np_mean_def)
  show "Solved i (Some (hd (scores sta))) (eps sta) \<in> set (console_out sta)"
    if "success_thresh p \<le> hd (scores sta)"
    using that
    by (simp add: sta init_state_def end_episode_def deque_append_def np_mean_def Let_def)
qed

lemma train_run_first:
  assumes "brain_names c e = b # bs" and "1 \<le> n_episodes p"
    and "run_episode p c b (init_state p e a) 1 = Inr sta"
  shows "train_run p c a e = train_loop p c b sta [2 .. n_episodes p]"
proof -
  have "[1 .. n_episodes p] = 1 # [2 .. n_episodes p]"
    using assms(2) by (simp add: upto_rec1)
  then show ?thesis using assms(1,3) by (simp add: train_run_def)
qed

text \<open>
  Claim C9. The success check divides the sum of the window by the window's actual length,
  which is the number of completed episodes until there are 100 of them. So when the first
  episode's score reaches the threshold, the flag is set at episode 1 and the run's console
  holds the message of episode 1.
\<close>

theorem early_success:
  "np_mean (scores_window (end_episode p st i s))
     = Some (sum_list (scores_window (end_episode p st i s))
             / real (length (scores_window (end_episode p st i s))))
   \<and> success (end_episode p st i s)
       = (success st \<or> success_thresh p \<le> sum_list (scores_window (end_episode p st i s))
                                          / real (length (scores_window (end_episode p st i s))))
   \<and> length (scores_window (fst (train_loop p c b (init_state p e a) js)))
       = min (length (scores (fst (train_loop p c b (init_state p e a) js)))) 100
   \<and> (brain_names c e = b # bs \<and> 1 \<le> n_episodes p
        \<and> run_episode p c b (init_state p e a) 1 = Inr sta
        \<and> success_thresh p \<le> hd (scores sta)
       \<longrightarrow> scores_window sta = [hd (scores sta)]
           \<and> success sta
           \<and> Solved 1 (Some (hd (scores sta))) (eps sta) \<in> set (console_out (fst (train_run p c a e)))
           \<and> success (fst (train_run p c a e)))"
proof -
  have m: "np_mean (scores_window (end_episode p st i s))
     = Some (sum_list (scores_window (end_episode p st i s))
             / real (length (scores_window (end_episode p st i s))))"
    by (simp add: window_mean)
  have f: "success (end_episode p st i s)
       = (success st \<or> success_thresh p \<le> sum_list (scores_window (end_episode p st i s))
                                          / real (length (scores_window (end_episode p st i s))))"
    using m by simp
  have r: "scores_window sta = [hd (scores sta)] \<and> success sta
           \<and> Solved 1 (Some (hd (scores sta))) (eps sta) \<in> set (console_out (fst (train_run p c a e)))
           \<and> success (fst (train_run p c a e))"
    if "brain_names c e = b # bs" "1 \<le> n_episodes p"
      "run_episode p c b (init_state p e a) 1 = Inr sta" "success_thresh p \<le> hd (scores sta)"
  proof -
    have run: "train_run p c a e = train_loop p c b sta [2 .. n_episodes p]"
      using that(1-3) by (rule train_run_first)
    have s1: "success sta" using first_episode(2) [OF that(3)] that(4) by simp
    have c1: "Solved 1 (Some (hd (scores sta))) (eps sta) \<in> set (console_out sta)"
      using first_episode(3) [OF that(3)] that(4) by simp
    show ?thesis
      using first_episode(1) [OF that(3)] s1 c1
      by (simp add: run success_kept console_kept)
  qed
  show ?thesis using m f r window_length [of p c b e a js] by blast
qed

theorem early_success_witness:
  "success (fst (train_run (scenario_params 3 1) (idle_stub 1) () ()))
   \<and> Solved 1 (Some 1) (995 / 1000)
       \<in> set (console_out (fst (train_run (scenario_params 3 1) (idle_stub 1) () ())))"
  using early_success [where p = "scenario_params 3 1" and c = "idle_stub 1"
      and a = "()" and e = "()" and b = "''BananaBrain''" and bs = "[]"
      and st = "init_state (scenario_params 3 1) () ()" and i = 1 and s = 1 and js = "[]"
      and sta = "end_episode (scenario_params 3 1) (init_state (scenario_params 3 1) () ()) 1 1"]
  by (simp add: scenario_params_def idle_stub_def run_episode_stub default_train_params_def
        init_state_def idle_step_def decay_step_def)

section \<open>The end-to-end scenario\<close>

lemma upto_1_5: "[1 .. 5] = [1, 2, 3, 4, 5 :: int]"
  by (simp add: upto_rec1)

lemma train_loop_stub:
  assumes "0 < max_t p"
  shows "snd (train_loop p (stub_collab r act stp) b st js) = None
         \<and> scores (fst (train_loop p (stub_collab r act stp) b st js))
             = scores st @ replicate (length js) r"
  using assms by (induction js arbitrary: st) (simp_all add: run_episode_stub)

lemma train_loop_stub_invariant:
  assumes "0 < max_t p" and "P st"
    and "\<And>s a2 i. P s \<Longrightarrow> P (end_episode p (s\<lparr>env_st := env_st s, agent_st := a2\<rparr>) i r)"
  shows "P (fst (train_loop p (stub_collab r act stp) b st js))"
  using assms(2)
proof (induction js arbitrary: st)
  case Nil
  then show ?case by simp
next
  case (Cons j js)
  from Cons.prems have "P (end_episode p
         (st\<lparr>env_st := env_st st,
             agent_st := stp (fst (act (agent_st st) [0, 0, 0, 0] (eps st))) [0, 0, 0, 0]
                           (snd (act (agent_st st) [0, 0, 0, 0] (eps st))) r [0, 0, 0, 0] True\<rparr>) j r)"
    by (rule assms(3))
  then show ?case using Cons.IH assms(1) by (simp add: run_episode_stub)
qed

lemma sum_ones: "\<forall>x\<in>set w. x = (1::real) \<Longrightarrow> sum_list w = real (length w)"
  by (induction w) simp_all

lemma deque_append_set: "y \<in> set (deque_append m w x) \<Longrightarrow> y = x \<or> y \<in> set w"
  by (cases w) (auto simp add: deque_append_def Let_def split: if_splits)

lemma mean_ones:
  assumes "\<forall>x\<in>set w. x = (1::real)"
  shows "np_mean (deque_append 100 w 1) = Some 1"
proof -
  have "\<forall>x\<in>set (deque_append 100 w 1). x = 1"
    using assms by (auto dest: deque_append_set)
  then have "sum_list (deque_append 100 w 1) = real (length (deque_append 100 w 1))"
    by (rule sum_ones)
  moreover have "deque_append 100 w 1 \<noteq> []" by (simp add: deque_append_nonempty)
  ultimately show ?thesis by (simp add: np_mean_def)
qed

lemma solved_in_console:
  "(\<exists>i m ep. Solved i m ep \<in> set xs) = (filter is_solved xs \<noteq> [])"
proof
  assume "\<exists>i m ep. Solved i m ep \<in> set xs"
  then obtain i m ep where "Solved i m ep \<in> set xs" by blast
  moreover have "is_solved (Solved i m ep)" by simp
  ultimately show "filter is_solved xs \<noteq> []" unfolding filter_empty_conv by blast
next
  assume "filter is_solved xs \<noteq> []"
  then obtain x where x: "x \<in> set xs" "is_solved x" unfolding filter_empty_conv by blast
  from x(2) obtain i m ep where "x = Solved i m ep" by (cases x) simp_all
  with x(1) show "\<exists>i m ep. Solved i m ep \<in> set xs" by blast
qed

lemma stub_never_solved:
  assumes "0 < max_t p" and "\<not> success_thresh p \<le> 1"
  shows "filter is_solved
           (console_out (fst (train_loop p (stub_collab 1 act stp) b (init_state p e a) js))) = []"
proof -
  let ?P = "\<lambda>s::(unit, 'a) train_state. \<not> success s \<and> (\<forall>x\<in>set (scores_window s). x = 1)
              \<and> filter is_solved (console_out s) = []"
  have "?P (fst (train_loop p (stub_collab 1 act stp) b (init_state p e a) js))"
  proof (rule train_loop_stub_invariant [where P = ?P, OF assms(1)])
    show "?P (init_state p e a)" by (simp add: init_state_def)
  next
    fix s :: "(unit, 'a) train_state" and a2 i
    assume inv: "?P s"
    then have m: "np_mean (deque_append 100 (scores_window s) 1) = Some 1"
      by (simp add: mean_ones)
    have "\<forall>x\<in>set (deque_append 100 (scores_window s) 1). x = 1"
      using inv by (auto dest: deque_append_set)
    with inv m assms(2) show "?P (end_episode p (s\<lparr>env_st := env_st s, agent_st := a2\<rparr>) i 1)"
      by (simp add: end_episode_solved)
  qed
  then show ?thesis by simp
qed

lemma stub_solved_once:
  assumes "0 < max_t p" and "success_thresh p \<le> 1"
  shows "filter is_solved
           (console_out (fst (train_loop p (stub_collab 1 act stp) b (init_state p e a) (j # js))))
         = [Solved j (Some 1) (decay_step p (eps_start p))]"
proof -
  let ?X = "[Solved j (Some 1) (decay_step p (eps_start p))]"
  let ?P = "\<lambda>s::(unit, 'a) train_state. success s \<and> filter is_solved (console_out s) = ?X"
  obtain sta where first: "run_episode p (stub_collab 1 act stp) b (init_state p e a) j = Inr sta"
    and sta: "?P sta"
    using assms
    by (simp add: run_episode_stub end_episode_solved init_state_def deque_append_def np_mean_def)
  have "?P (fst (train_loop p (stub_collab 1 act stp) b sta js))"
    by (rule train_loop_invariant [where P = ?P]) (use sta in \<open>simp_all add: end_episode_solved\<close>)
  then show ?thesis using first by simp
qed

text \<open>
  Claim C6. With the stub environment (reward 1 and \<open>done\<close> at the first step), any agent
  that does not raise, at least one step allowed per episode and \<open>n_episodes = 5\<close>,
  \<open>train_agent\<close> returns five scores, all 1, and does not raise. The console holds a
  success message if and only if the threshold is at most 1, and then it is the message of
  episode 1.
\<close>

theorem stub_scenario:
  assumes "0 < max_t p" and "n_episodes p = 5"
  shows "train_agent p (stub_collab 1 act stp) a () = Inr [1, 1, 1, 1, 1]
         \<and> snd (train_run p (stub_collab 1 act stp) a ()) = None
         \<and> filter is_solved (console_out (fst (train_run p (stub_collab 1 act stp) a ())))
             = (if success_thresh p \<le> 1 then [Solved 1 (Some 1) (decay_step p (eps_start p))] else [])
         \<and> ((\<exists>i m ep. Solved i m ep \<in> set (console_out (fst (train_run p (stub_collab 1 act stp) a ()))))
              = (success_thresh p \<le> 1))"
proof -
  define run where
    "run = train_loop p (stub_collab 1 act stp) ''BananaBrain'' (init_state p () a) [1, 2, 3, 4, 5]"
  have tr: "train_run p (stub_collab 1 act stp) a () = run"
    using assms(2) by (simp add: train_run_def upto_1_5 run_def)
  have "snd run = None \<and> scores (fst run) = scores (init_state p () a) @ replicate (length [1, 2, 3, 4, 5 :: int]) 1"
    unfolding run_def using assms(1) by (rule train_loop_stub)
  then have ok: "snd run = None" and sc: "scores (fst run) = [1, 1, 1, 1, 1]"
    by (simp_all add: init_state_def)
  have out: "filter is_solved (console_out (fst run))
      = (if success_thresh p \<le> 1 then [Solved 1 (Some 1) (decay_step p (eps_start p))] else [])"
  proof (cases "success_thresh p \<le> 1")
    case True
    have "filter is_solved (console_out (fst run)) = [Solved 1 (Some 1) (decay_step p (eps_start p))]"
      unfolding run_def using assms(1) True by (rule stub_solved_once)
    with True show ?thesis by simp
  next
    case False
    have "filter is_solved (console_out (fst run)) = []"
      unfolding run_def using assms(1) False by (rule stub_never_solved)
    with False show ?thesis by simp
  qed
  have ag: "train_agent p (stub_collab 1 act stp) a () = Inr [1, 1, 1, 1, 1]"
    using ok sc by (cases run) (simp add: train_agent_def tr)
  show ?thesis
    unfolding solved_in_console tr using ag ok out by (simp add: tr)
qed

theorem stub_scenario_witness:
  "train_agent (scenario_params 5 13) (idle_stub 1) () () = Inr [1, 1, 1, 1, 1]
   \<and> filter is_solved (console_out (fst (train_run (scenario_params 5 13) (idle_stub 1) () ())))
       = []"
  using stub_scenario [where p = "scenario_params 5 13" and act = idle_act and stp = idle_step
      and a = "()"]
  by (simp add: scenario_params_def idle_stub_def default_train_params_def)

section \<open>The success marker of the plot\<close>

lemma plot_loop_invariant:
  assumes "P st" and "\<forall>i\<in>set idxs. 0 \<le> i"
    and "\<And>s i. P s \<Longrightarrow> 0 \<le> i \<Longrightarrow> P (plot_step scs w t s i)"
  shows "P (plot_loop scs w t st idxs)"
  using assms(1,2)
proof (induction idxs arbitrary: st)
  case Nil
  then show ?case by simp
next
  case (Cons i idxs)
  then have "P (plot_step scs w t st i)" using assms(3) by simp
  with Cons show ?case by simp
qed

lemma plot_step_marker_inv:
  assumes "plot_success s = (success_x s \<noteq> None)"
    and "(success_x s = None) = (success_y s = None)"
    and "\<forall>x. success_x s = Some x \<longrightarrow> 1 \<le> x"
    and "\<forall>y. success_y s = Some y \<longrightarrow> t < y"
    and "0 \<le> i"
  shows "plot_success (plot_step scs w t s i) = (success_x (plot_step scs w t s i) \<noteq> None)
         \<and> (success_x (plot_step scs w t s i) = None) = (success_y (plot_step scs w t s i) = None)
         \<and> (\<forall>x. success_x (plot_step scs w t s i) = Some x \<longrightarrow> 1 \<le> x)
         \<and> (\<forall>y. success_y (plot_step scs w t s i) = Some y \<longrightarrow> t < y)"
  using assms by (auto simp add: plot_step_def Let_def split: option.splits)

lemma plot_final_marker_inv:
  "plot_success (plot_final scs w t) = (success_x (plot_final scs w t) \<noteq> None)
   \<and> (success_x (plot_final scs w t) = None) = (success_y (plot_final scs w t) = None)
   \<and> (\<forall>x. success_x (plot_final scs w t) = Some x \<longrightarrow> 1 \<le> x)
   \<and> (\<forall>y. success_y (plot_final scs w t) = Some y \<longrightarrow> t < y)"
  unfolding plot_final_def
proof (rule plot_loop_invariant
        [where P = "\<lambda>s. plot_success s = (success_x s \<noteq> None)
                      \<and> (success_x s = None) = (success_y s = None)
                      \<and> (\<forall>x. success_x s = Some x \<longrightarrow> 1 \<le> x)
                      \<and> (\<forall>y. success_y s = Some y \<longrightarrow> t < y)"])
  show "plot_success plot_init = (success_x plot_init \<noteq> None)
        \<and> (success_x plot_init = None) = (success_y plot_init = None)
        \<and> (\<forall>x. success_x plot_init = Some x \<longrightarrow> 1 \<le> x)
        \<and> (\<forall>y. success_y plot_init = Some y \<longrightarrow> t < y)"
    by (simp add: plot_init_def)
next
  show "\<forall>i\<in>set (map int [0 ..< length scs]). 0 \<le> i" by simp
next
  fix s :: plot_state and i :: int
  assume a: "plot_success s = (success_x s \<noteq> None)
          \<and> (success_x s = None) = (success_y s = None)
          \<and> (\<forall>x. success_x s = Some x \<longrightarrow> 1 \<le> x)
          \<and> (\<forall>y. success_y s = Some y \<longrightarrow> t < y)"
    and i: "0 \<le> i"
  from a have a1: "plot_success s = (success_x s \<noteq> None)"
    and a2: "(success_x s = None) = (success_y s = None)"
    and a3: "\<forall>x. success_x s = Some x \<longrightarrow> 1 \<le> x"
    and a4: "\<forall>y. success_y s = Some y \<longrightarrow> t < y"
    by blast+
  from a1 a2 a3 a4 i show "plot_success (plot_step scs w t s i) = (success_x (plot_step scs w t s i) \<noteq> None)
         \<and> (success_x (plot_step scs w t s i) = None) = (success_y (plot_step scs w t s i) = None)
         \<and> (\<forall>x. success_x (plot_step scs w t s i) = Some x \<longrightarrow> 1 \<le> x)
         \<and> (\<forall>y. success_y (plot_step scs w t s i) = Some y \<longrightarrow> t < y)"
    by (rule plot_step_marker_inv)
qed

lemma marker_None:
  "(marker st = None)
     = (success_x st = None \<or> success_x st = Some 0 \<or> success_y st = None \<or> success_y st = Some 0)"
  by (auto simp add: marker_def truthy_int_def truthy_float_def split: option.splits)

lemma scatter_iff_marker:
  "(filter is_scatter (plot_scores scs w t) \<noteq> []) = (marker (plot_final scs w t) \<noteq> None)"
  by (auto simp add: plot_scores_def Let_def split: option.splits)

lemma legend_iff_marker:
  "(Legend [''Raw score'', ''Running average score'', ''Running median score'', ''Success episode'']
      \<in> set (plot_scores scs w t)) = (marker (plot_final scs w t) \<noteq> None)"
  by (auto simp add: plot_scores_def Let_def split: option.splits)

text \<open>
  Claim C10. \<open>plot_scores\<close> draws the success marker, and adds its legend entry, exactly
  when a success episode was detected and the running average stored for it is not zero
  (the stored episode number is at least 1, so it is always truthy). When the running
  average at the first crossing is exactly 0, which needs a negative threshold, the marker
  is left out although success was detected.
\<close>

theorem marker_needs_truthy:
  "(filter is_scatter (plot_scores scs w t) \<noteq> [])
     = (plot_success (plot_final scs w t) \<and> success_y (plot_final scs w t) \<noteq> Some 0)
   \<and> (Legend [''Raw score'', ''Running average score'', ''Running median score'', ''Success episode'']
        \<in> set (plot_scores scs w t))
     = (plot_success (plot_final scs w t) \<and> success_y (plot_final scs w t) \<noteq> Some 0)
   \<and> (plot_success (plot_final scs w t) \<and> success_y (plot_final scs w t) = Some 0
       \<longrightarrow> filter is_scatter (plot_scores scs w t) = [] \<and> t < 0)"
proof -
  let ?st = "plot_final scs w t"
  have inv: "plot_success ?st = (success_x ?st \<noteq> None)"
    "(success_x ?st = None) = (success_y ?st = None)"
    "\<forall>x. success_x ?st = Some x \<longrightarrow> 1 \<le> x"
    "\<forall>y. success_y ?st = Some y \<longrightarrow> t < y"
    using plot_final_marker_inv [of scs w t] by blast+
  have "success_x ?st \<noteq> Some 0" using inv(3) by auto
  then have m: "(marker ?st \<noteq> None) = (plot_success ?st \<and> success_y ?st \<noteq> Some 0)"
    using inv(1,2) by (auto simp add: marker_None)
  show ?thesis
    using m inv(4) by (auto simp add: scatter_iff_marker legend_iff_marker)
qed

theorem marker_needs_truthy_witness:
  "plot_success (plot_final [0] 100 (- 1)) \<and> success_x (plot_final [0] 100 (- 1)) = Some 1
   \<and> success_y (plot_final [0] 100 (- 1)) = Some 0
   \<and> filter is_scatter (plot_scores [0] 100 (- 1)) = []"
  using marker_needs_truthy [of "[0]" 100 "- 1"]
  by (simp add: plot_final_def plot_init_def plot_step_def running_slice_def np_mean_def Let_def)

text \<open>
  Claim C7, at the input where the code departs from it. One episode with score 13 and the
  threshold 13: the training loop returns the history \<open>[13]\<close> and declares success at
  episode 1, since it tests \<open>running_mean >= success_thresh\<close>; \<open>plot_scores\<close> on the
  same history and threshold detects no success episode and draws no marker, since it tests
  \<open>ra_score > success_thresh\<close>.
\<close>

theorem plot_marker_differs:
  "train_agent (default_train_params\<lparr>n_episodes := 1\<rparr>) (stub_collab 13 idle_act idle_step) () ()
     = Inr [13]
   \<and> filter is_solved (console_out (fst (train_run (default_train_params\<lparr>n_episodes := 1\<rparr>)
        (stub_collab 13 idle_act idle_step) () ()))) = [Solved 1 (Some 13) (995 / 1000)]
   \<and> success_x (plot_final [13] 100 13) = None
   \<and> filter is_scatter (plot_scores [13] 100 13) = []"
  by (simp add: train_agent_def train_run_def default_train_params_def run_episode_stub
        init_state_def end_episode_def Let_def deque_append_def np_mean_def
        plot_scores_def plot_final_def plot_init_def plot_step_def running_slice_def
        np_median_def marker_def truthy_int_def)

section \<open>Closing the environment\<close>

lemma close_not_console [simp]: "CloseEnv \<notin> Console ` A"
  by auto

lemma count_console [simp]: "count_list (map Console xs) CloseEnv = 0"
  by (induction xs) simp_all

lemma main_finish_close:
  "(CloseEnv \<in> set (fst (main_finish w ar st)))
     = (snd (main_finish w ar st) = Completed
        \<or> (\<exists>x. snd (main_finish w ar st) = Failed Closing x)
        \<or> (\<exists>x. snd (main_finish w ar st) = Failed Plotting x))"
  and main_finish_count: "count_list (fst (main_finish w ar st)) CloseEnv \<le> 1"
  and main_finish_stage: "snd (main_finish w ar st) \<noteq> Failed Setup x"
     "snd (main_finish w ar st) \<noteq> Failed Training x"
  by (auto simp add: main_finish_def Let_def split: sum.splits)

lemma main_train_close:
  "(CloseEnv \<in> set (fst (main_train w ar a e)))
     = (snd (main_train w ar a e) = Completed
        \<or> (\<exists>x. snd (main_train w ar a e) = Failed Closing x)
        \<or> (\<exists>x. snd (main_train w ar a e) = Failed Plotting x))"
  and main_train_count: "count_list (fst (main_train w ar a e)) CloseEnv \<le> 1"
  and main_train_stage: "snd (main_train w ar a e) \<noteq> Failed Setup x"
proof -
  obtain st r where tr: "train_run (main_train_params ar) (collabs w) a e = (st, r)"
    by (cases "train_run (main_train_params ar) (collabs w) a e")
  obtain evs res where fin: "main_finish w ar st = (evs, res)"
    by (cases "main_finish w ar st")
  show "(CloseEnv \<in> set (fst (main_train w ar a e)))
     = (snd (main_train w ar a e) = Completed
        \<or> (\<exists>x. snd (main_train w ar a e) = Failed Closing x)
        \<or> (\<exists>x. snd (main_train w ar a e) = Failed Plotting x))"
    using main_finish_close [of w ar st] fin tr
    by (cases r) (simp_all add: main_train_def)
  show "count_list (fst (main_train w ar a e)) CloseEnv \<le> 1"
    using main_finish_count [of w ar st] fin tr
    by (cases r) (simp_all add: main_train_def)
  show "snd (main_train w ar a e) \<noteq> Failed Setup x"
    using main_finish_stage(1) [of w ar st x] fin tr
    by (cases r) (simp_all add: main_train_def)
qed

lemma main_cases:
  "(\<exists>s x. main w ar = (s, Failed Setup x) \<and> CloseEnv \<notin> set s)
   \<or> (\<exists>s a e. CloseEnv \<notin> set s
         \<and> main w ar = (s @ fst (main_train w ar a e), snd (main_train w ar a e)))"
proof (cases "make_env w (arg_env_path ar) (arg_no_graphics ar)")
  case (Inl x)
  then show ?thesis by (simp add: main_def)
next
  case env: (Inr e0)
  show ?thesis
  proof (cases "brain_names (collabs w) e0")
    case Nil
    with env show ?thesis by (simp add: main_def)
  next
    case names: (Cons b bs)
    show ?thesis
    proof (cases "brain_action_size w e0 b")
      case (Inl x)
      with env names show ?thesis by (simp add: main_def)
    next
      case size: (Inr n)
      show ?thesis
      proof (cases "env_reset (collabs w) e0 b")
        case (Inl x)
        with env names size show ?thesis by (simp add: main_def)
      next
        case (Inr r)
        then obtain e1 state where reset: "env_reset (collabs w) e0 b = Inr (e1, state)"
          by (cases r) simp
        show ?thesis
        proof (cases "make_agent w (agent_cfg ar (length state) n)")
          case (Inl x)
          with env names size reset show ?thesis by (simp add: main_def)
        next
          case (Inr a)
          let ?s = "(if arg_deterministic ar then [SetSeed 42] else [])
                    @ [EnvOpened, PrintAgents (num_agents w e1), PrintActions n,
                       PrintState state, PrintStateSize (length state)]"
          have "CloseEnv \<notin> set ?s" by simp
          moreover have "main w ar = (?s @ fst (main_train w ar a e1), snd (main_train w ar a e1))"
            using env names size reset Inr by (simp add: main_def split: prod.splits)
          ultimately show ?thesis by blast
        qed
      qed
    qed
  qed
qed

text \<open>
  Claim C8, as amended. \<open>main\<close> calls \<open>env.close()\<close> exactly when everything before it
  has completed without raising: the creation of the environment, the first reset, the
  creation of the agent, the training run and the saving of the model. So the call is made
  when the run completes, when \<open>close\<close> itself raises and when saving the figure raises;
  it is made at most once; and a run that ends with an exception raised before, during
  training for instance, ends without it.
\<close>

theorem env_closed_after_save:
  "(CloseEnv \<in> set (fst (main w ar)))
     = (snd (main w ar) = Completed
        \<or> (\<exists>x. snd (main w ar) = Failed Closing x)
        \<or> (\<exists>x. snd (main w ar) = Failed Plotting x))
   \<and> count_list (fst (main w ar)) CloseEnv \<le> 1"
proof -
  consider (early) s x where "main w ar = (s, Failed Setup x)" "CloseEnv \<notin> set s"
    | (trained) s a e where "CloseEnv \<notin> set s"
        "main w ar = (s @ fst (main_train w ar a e), snd (main_train w ar a e))"
    using main_cases [of w ar] by blast
  then show ?thesis
  proof cases
    case early
    then show ?thesis by (simp add: count_list_0_iff)
  next
    case trained
    then show ?thesis
      using main_train_close [of w ar a e] main_train_count [of w ar a e]
      by (simp add: count_list_0_iff)
  qed
qed

lemma run_steps_crash:
  "0 < k \<Longrightarrow> run_steps (collabs crash_world) b ep k e a s sc = Inl (Raised ''simulator closed'')"
  by (cases k) (simp_all add: crash_world_def stub_world_def stub_collab_def idle_act_def)

lemma train_run_crash:
  assumes "0 < max_t p" and "1 \<le> n_episodes p"
  shows "train_run p (collabs crash_world) a e
           = (init_state p e a, Some (Raised ''simulator closed''))"
proof -
  have "[1 .. n_episodes p] = 1 # [2 .. n_episodes p]"
    using assms(2) by (simp add: upto_rec1)
  moreover have "run_episode p (collabs crash_world) b (init_state p e a) 1
                   = Inl (Raised ''simulator closed'')" for b
    using assms(1) run_steps_crash [of "nat (max_t p)"]
    by (simp add: run_episode_def)
       (simp add: crash_world_def stub_world_def stub_collab_def)
  moreover have "brain_names (collabs crash_world) e = [''BananaBrain'']"
    by (simp add: crash_world_def stub_world_def stub_collab_def)
  ultimately show ?thesis by (simp add: train_run_def)
qed

lemma main_crash:
  "main crash_world default_args
     = ([EnvOpened, PrintAgents 1, PrintActions 3, PrintState [0, 0, 0, 0], PrintStateSize 4],
        Failed Training (Raised ''simulator closed''))"
proof -
  have "train_run (main_train_params default_args) (collabs crash_world) () ()
          = (init_state (main_train_params default_args) () (),
             Some (Raised ''simulator closed''))"
    by (rule train_run_crash) (simp_all add: main_train_params_def default_args_def)
  then have "main_train crash_world default_args () ()
               = ([], Failed Training (Raised ''simulator closed''))"
    by (simp add: main_train_def init_state_def)
  then show ?thesis
    by (simp add: main_def)
       (simp add: crash_world_def stub_world_def stub_collab_def default_args_def)
qed

text \<open>The claim as stated fails when the simulator dies at the first step of training:
  \<open>main\<close> ends with the exception and the environment was never closed.\<close>

theorem env_not_closed_counterexample:
  "snd (main crash_world default_args) = Failed Training (Raised ''simulator closed'')
   \<and> CloseEnv \<notin> set (fst (main crash_world default_args))"
  by (simp add: main_crash)

section \<open>The success threshold option\<close>

lemma solved_events_console [simp]:
  "filter is_solved_event (map Console xs) = map Console (filter is_solved xs)"
  by (induction xs) simp_all

lemma plot_ones_marker: "Scatter 1 1 \<in> set (plot_scores [1, 1, 1, 1, 1] 100 (1 / 2))"
  by (simp add: plot_scores_def plot_final_def plot_init_def plot_step_def running_slice_def
        np_mean_def np_median_def marker_def truthy_int_def truthy_float_def Let_def
        upt_rec [of 0] upt_rec [of "Suc n" for n])

lemma main_stub:
  assumes "arg_episodes ar = 5"
  shows "\<exists>out. filter is_solved out = []
           \<and> main (stub_world 1) ar
               = ((if arg_deterministic ar then [SetSeed 42] else [])
                  @ [EnvOpened, PrintAgents 1, PrintActions 3, PrintState [0, 0, 0, 0],
                     PrintStateSize 4]
                  @ map Console out
                  @ [ModelSaved, CloseEnv,
                     Plotted (plot_scores [1, 1, 1, 1, 1] 100 (arg_success_threshold ar)), FigSaved],
                  Completed)"
proof -
  let ?p = "main_train_params ar"
  let ?c = "stub_collab 1 idle_act idle_step"
  define run where "run = train_loop ?p ?c ''BananaBrain'' (init_state ?p () ()) [1, 2, 3, 4, 5]"
  have mt: "0 < max_t ?p" and th: "\<not> success_thresh ?p \<le> 1"
    by (simp_all add: main_train_params_def)
  have tr: "train_run ?p ?c () () = run"
    using assms by (simp add: train_run_def upto_1_5 run_def main_train_params_def)
  have "snd run = None \<and> scores (fst run)
          = scores (init_state ?p () ()) @ replicate (length [1, 2, 3, 4, 5 :: int]) 1"
    unfolding run_def using mt by (rule train_loop_stub)
  then have ok: "snd run = None" and sc: "scores (fst run) = [1, 1, 1, 1, 1]"
    by (simp_all add: init_state_def)
  have ns: "filter is_solved (console_out (fst run)) = []"
    unfolding run_def using mt th by (rule stub_never_solved)
  obtain st where run: "run = (st, None)" using ok by (cases run) simp
  have fin: "main_finish (stub_world 1) ar st
      = ([ModelSaved, CloseEnv,
          Plotted (plot_scores [1, 1, 1, 1, 1] 100 (arg_success_threshold ar)), FigSaved], Completed)"
    using sc run by (simp add: main_finish_def stub_world_def)
  have "main_train (stub_world 1) ar () ()
      = (map Console (console_out st)
         @ [ModelSaved, CloseEnv,
            Plotted (plot_scores [1, 1, 1, 1, 1] 100 (arg_success_threshold ar)), FigSaved],
         Completed)"
    using tr run fin by (simp add: main_train_def) (simp add: stub_world_def)
  then have "main (stub_world 1) ar
      = ((if arg_deterministic ar then [SetSeed 42] else [])
         @ [EnvOpened, PrintAgents 1, PrintActions 3, PrintState [0, 0, 0, 0], PrintStateSize 4]
         @ map Console (console_out st)
         @ [ModelSaved, CloseEnv,
            Plotted (plot_scores [1, 1, 1, 1, 1] 100 (arg_success_threshold ar)), FigSaved],
         Completed)"
    by (simp add: main_def) (simp add: stub_world_def stub_collab_def)
  moreover have "filter is_solved (console_out st) = []" using ns run by simp
  ultimately show ?thesis by blast
qed

text \<open>
  Claim C3, at the input where the code departs from it. The success threshold is an option
  with default 13, but \<open>main\<close> does not pass it to \<open>train_agent\<close>, whose check then uses
  the 13 of the function's signature. With the option set to 0.5, five episodes and the stub
  environment (every score is 1), the run completes without any success message from the
  training loop, while the plot, which does receive the option, marks episode 1.
\<close>

theorem success_threshold_not_forwarded:
  "arg_success_threshold default_args = 13
   \<and> arg_success_threshold low_threshold_args = 1 / 2
   \<and> success_thresh (main_train_params low_threshold_args) = 13
   \<and> snd (main (stub_world 1) low_threshold_args) = Completed
   \<and> filter is_solved_event (fst (main (stub_world 1) low_threshold_args)) = []
   \<and> Plotted (plot_scores [1, 1, 1, 1, 1] 100 (1 / 2))
       \<in> set (fst (main (stub_world 1) low_threshold_args))
   \<and> Scatter 1 1 \<in> set (plot_scores [1, 1, 1, 1, 1] 100 (1 / 2))"
proof -
  obtain out where "filter is_solved out = []"
    and "main (stub_world 1) low_threshold_args
           = ([EnvOpened, PrintAgents 1, PrintActions 3, PrintState [0, 0, 0, 0], PrintStateSize 4]
              @ map Console out
              @ [ModelSaved, CloseEnv, Plotted (plot_scores [1, 1, 1, 1, 1] 100 (1 / 2)), FigSaved],
              Completed)"
    using main_stub [of low_threshold_args]
    by (auto simp add: low_threshold_args_def default_args_def)
  then show ?thesis
    using plot_ones_marker
    by (simp add: low_threshold_args_def default_args_def main_train_params_def)
qed

end
